theory Spec2Isabelle
  imports Main "HOL-Library.Word" "HOL-Library.Signed_Division"
begin

unbundle bit_operations_syntax

section \<open>Machine types and constants of the LTC2990 driver\<close>

text \<open>
  C \<^verbatim>\<open>int\<close> and \<^verbatim>\<open>u32\<close> are 32-bit words; signedness is in the operations
  (\<open>sint\<close>, \<open><s\<close>, \<open>signed_drop_bit\<close>, \<open>c_sdiv\<close>), as it is in the machine.
  A left shift of a negative \<^verbatim>\<open>int\<close> is the two's-complement shift the kernel is
  compiled for, that is \<open>push_bit\<close> on the word.
\<close>

type_synonym s32 = "32 word"
type_synonym u32 = "32 word"
type_synonym u8 = "8 word"
type_synonym umode_t = "16 word"

text \<open>C's \<^verbatim>\<open>/\<close> on \<^verbatim>\<open>int\<close>: the quotient truncated toward zero.\<close>

definition c_sdiv :: "s32 \<Rightarrow> s32 \<Rightarrow> s32" where
  "c_sdiv a b = word_of_int (sint a sdiv sint b)"

definition BIT :: "nat \<Rightarrow> s32" where
  "BIT n = push_bit n 1"

definition EINVAL :: s32 where "EINVAL = 22"
definition ENOMEM :: s32 where "ENOMEM = 12"
definition ENODEV :: s32 where "ENODEV = 19"

definition LTC2990_STATUS :: u8 where "LTC2990_STATUS = 0x00"
definition LTC2990_CONTROL :: u8 where "LTC2990_CONTROL = 0x01"
definition LTC2990_TRIGGER :: u8 where "LTC2990_TRIGGER = 0x02"
definition LTC2990_TINT_MSB :: u8 where "LTC2990_TINT_MSB = 0x04"
definition LTC2990_V1_MSB :: u8 where "LTC2990_V1_MSB = 0x06"
definition LTC2990_V2_MSB :: u8 where "LTC2990_V2_MSB = 0x08"
definition LTC2990_V3_MSB :: u8 where "LTC2990_V3_MSB = 0x0A"
definition LTC2990_V4_MSB :: u8 where "LTC2990_V4_MSB = 0x0C"
definition LTC2990_VCC_MSB :: u8 where "LTC2990_VCC_MSB = 0x0E"

definition LTC2990_CONTROL_MEASURE_ALL :: u32 where
  "LTC2990_CONTROL_MEASURE_ALL = push_bit 3 0x3"
definition LTC2990_CONTROL_MODE_DEFAULT :: u32 where
  "LTC2990_CONTROL_MODE_DEFAULT = 0x06"
definition LTC2990_CONTROL_MODE_MAX :: u32 where
  "LTC2990_CONTROL_MODE_MAX = 0x07"

definition LTC2990_IN0 :: s32 where "LTC2990_IN0 = BIT 0"
definition LTC2990_IN1 :: s32 where "LTC2990_IN1 = BIT 1"
definition LTC2990_IN2 :: s32 where "LTC2990_IN2 = BIT 2"
definition LTC2990_IN3 :: s32 where "LTC2990_IN3 = BIT 3"
definition LTC2990_IN4 :: s32 where "LTC2990_IN4 = BIT 4"
definition LTC2990_CURR1 :: s32 where "LTC2990_CURR1 = BIT 5"
definition LTC2990_CURR2 :: s32 where "LTC2990_CURR2 = BIT 6"
definition LTC2990_TEMP1 :: s32 where "LTC2990_TEMP1 = BIT 7"
definition LTC2990_TEMP2 :: s32 where "LTC2990_TEMP2 = BIT 8"
definition LTC2990_TEMP3 :: s32 where "LTC2990_TEMP3 = BIT 9"

section \<open>Value codec\<close>

text \<open>\<^verbatim>\<open>ltc2990_voltage_to_int\<close>: raw register value to sign-extended integer.\<close>

definition ltc2990_voltage_to_int :: "s32 \<Rightarrow> s32" where
  "ltc2990_voltage_to_int raw =
     (if raw AND BIT 14 \<noteq> 0
      then push_bit 2 (- (0x4000 - (raw AND 0x3FFF)))
      else push_bit 2 (raw AND 0x3FFF))"

section \<open>The kernel services the driver calls\<close>

text \<open>
  The SMBus transfers, the mutex, sysfs, the device log and the hwmon registration are
  kernel code, outside the driver. The model takes them as a parameter: every such call
  is appended to the list \<open>calls\<close>, oldest first, and its return value is whatever
  \<open>answer\<close> gives for that call after the calls made so far. Nothing is assumed
  about \<open>answer\<close>, so every transfer may succeed or fail, and differently each time.
  A negative return value is an error number, as in the kernel.
\<close>

datatype call =
    Smbus_read_word_swapped u8
  | Smbus_write_byte_data u8 u8
  | Mutex_init
  | Mutex_lock
  | Mutex_unlock
  | Sysfs_update_group
  | Dev_err string
  | Dev_warn string u32 u32
  | Hwmon_device_register

record kernel =
  answer :: "call list \<Rightarrow> call \<Rightarrow> s32"
  calls :: "call list"

definition extern :: "kernel \<Rightarrow> call \<Rightarrow> s32 \<times> kernel" where
  "extern k c = (answer k (calls k) c, k\<lparr>calls := calls k @ [c]\<rparr>)"

text \<open>
  \<^verbatim>\<open>struct ltc2990_data\<close>. Its fields \<^verbatim>\<open>i2c\<close> and \<^verbatim>\<open>update_lock\<close> are handles
  of kernel objects; the kernel behind them is the field \<open>kern\<close>.
\<close>

record ltc2990_data =
  kern :: kernel
  mode :: u32

section \<open>Reading a channel\<close>

text \<open>The first \<^verbatim>\<open>switch\<close> of \<^verbatim>\<open>ltc2990_get_value\<close>: the register of a channel;
  \<open>None\<close> is its \<^verbatim>\<open>default\<close> branch.\<close>

definition ltc2990_reg :: "s32 \<Rightarrow> u8 option" where
  "ltc2990_reg index =
     (if index = LTC2990_IN0 then Some LTC2990_VCC_MSB
      else if index = LTC2990_IN1 \<or> index = LTC2990_CURR1 \<or> index = LTC2990_TEMP2
        then Some LTC2990_V1_MSB
      else if index = LTC2990_IN2 then Some LTC2990_V2_MSB
      else if index = LTC2990_IN3 \<or> index = LTC2990_CURR2 \<or> index = LTC2990_TEMP3
        then Some LTC2990_V3_MSB
      else if index = LTC2990_IN4 then Some LTC2990_V4_MSB
      else if index = LTC2990_TEMP1 then Some LTC2990_TINT_MSB
      else None)"

text \<open>
  \<^verbatim>\<open>ltc2990_get_value(i2c, index, result)\<close>. The out-parameter \<^verbatim>\<open>*result\<close> is passed
  in with the value the caller's variable holds and is returned as the third component;
  the first component is the return value.
\<close>

definition ltc2990_get_value :: "kernel \<Rightarrow> s32 \<Rightarrow> s32 \<Rightarrow> s32 \<times> kernel \<times> s32" where
  "ltc2990_get_value i2c index result =
     (case ltc2990_reg index of
        None \<Rightarrow> (- EINVAL, i2c, result)
      | Some reg \<Rightarrow>
          (case extern i2c (Smbus_read_word_swapped reg) of (val, i2c') \<Rightarrow>
             if val <s 0 then (val, i2c', result)
             else if index = LTC2990_TEMP1 \<or> index = LTC2990_TEMP2 \<or> index = LTC2990_TEMP3
               then (0, i2c', signed_drop_bit 7 (push_bit 3 (val AND 0x1FFF) * 1000))
             else if index = LTC2990_CURR1 \<or> index = LTC2990_CURR2
               then (0, i2c', c_sdiv (ltc2990_voltage_to_int val * 1942) (4 * 100))
             else if index = LTC2990_IN0
               then (0, i2c',
                     c_sdiv (ltc2990_voltage_to_int val * 30518) (4 * 100 * 1000) + 2500)
             else if index = LTC2990_IN1 \<or> index = LTC2990_IN2
                   \<or> index = LTC2990_IN3 \<or> index = LTC2990_IN4
               then (0, i2c', c_sdiv (ltc2990_voltage_to_int val * 30518) (4 * 100 * 1000))
             else (- EINVAL, i2c', result)))"

section \<open>Starting the conversion and changing the mode\<close>

definition ltc2990_write_control_trigger :: "ltc2990_data \<Rightarrow> s32 \<times> ltc2990_data" where
  "ltc2990_write_control_trigger data =
     (case extern (kern data)
             (Smbus_write_byte_data LTC2990_CONTROL
                (ucast (LTC2990_CONTROL_MEASURE_ALL OR mode data))) of (ret, k1) \<Rightarrow>
        if ret <s 0
        then (ret, data\<lparr>kern := snd (extern k1
                (Dev_err (''Error: Failed to set control mode.'' @ [CHR 0x0A])))\<rparr>)
        else (case extern k1 (Smbus_write_byte_data LTC2990_TRIGGER 0x01) of (ret, k2) \<Rightarrow>
          if ret <s 0
          then (ret, data\<lparr>kern := snd (extern k2
                  (Dev_err (''Error: Failed to start acquisition.'' @ [CHR 0x0A])))\<rparr>)
          else (0, data\<lparr>kern := k2\<rparr>)))"

text \<open>
  \<^verbatim>\<open>ltc2990_set_mode\<close>. The pair \<open>(kret, kmode)\<close> is what \<^verbatim>\<open>kstrtoul(buf, 10, &mode)\<close>
  returned and stored; \<^verbatim>\<open>unsigned long\<close> and \<^verbatim>\<open>size_t\<close> values are given by their
  value as \<open>nat\<close>, the \<^verbatim>\<open>ssize_t\<close> result by its value as \<open>int\<close>, whatever the width
  of the platform. The code from the label \<^verbatim>\<open>abort\<close> on is \<open>ltc2990_set_mode_abort\<close>.
\<close>

definition ltc2990_set_mode_abort :: "s32 \<Rightarrow> ltc2990_data \<Rightarrow> int \<times> ltc2990_data" where
  "ltc2990_set_mode_abort ret data =
     (sint ret, data\<lparr>kern := snd (extern (kern data) Mutex_unlock)\<rparr>)"

definition ltc2990_set_mode :: "ltc2990_data \<Rightarrow> s32 \<times> nat \<Rightarrow> nat \<Rightarrow> int \<times> ltc2990_data" where
  "ltc2990_set_mode data parsed count =
     (case parsed of (kret, kmode) \<Rightarrow>
        if kret \<noteq> 0 then (sint kret, data)
        else if kmode > unat LTC2990_CONTROL_MODE_MAX then (sint (- EINVAL), data)
        else
          (case ltc2990_write_control_trigger
                  (data\<lparr>kern := snd (extern (kern data) Mutex_lock),
                        mode := of_nat kmode\<rparr>) of (ret, d1) \<Rightarrow>
             if ret <s 0 then ltc2990_set_mode_abort ret d1
             else (case extern (kern d1) Sysfs_update_group of (ret, k2) \<Rightarrow>
               if ret <s 0 then ltc2990_set_mode_abort ret (d1\<lparr>kern := k2\<rparr>)
               else ltc2990_set_mode_abort (of_nat count) (d1\<lparr>kern := k2\<rparr>))))"

section \<open>Mode table and attribute visibility\<close>

definition ltc2990_attrs_ena :: "s32 list" where
  "ltc2990_attrs_ena =
     [LTC2990_IN1 OR LTC2990_IN2 OR LTC2990_TEMP3,
      LTC2990_CURR1 OR LTC2990_TEMP3,
      LTC2990_CURR1 OR LTC2990_IN3 OR LTC2990_IN4,
      LTC2990_TEMP2 OR LTC2990_IN3 OR LTC2990_IN4,
      LTC2990_TEMP2 OR LTC2990_CURR2,
      LTC2990_TEMP2 OR LTC2990_TEMP3,
      LTC2990_CURR1 OR LTC2990_CURR2,
      LTC2990_IN1 OR LTC2990_IN2 OR LTC2990_IN3 OR LTC2990_IN4]"

text \<open>A \<^verbatim>\<open>SENSOR_DEVICE_ATTR\<close>: name, permission bits and channel index.\<close>

record attribute =
  name :: string
  perm :: umode_t
  index :: s32

definition S_IRUGO :: umode_t where "S_IRUGO = 0x124"
definition S_IWUSR :: umode_t where "S_IWUSR = 0x80"

definition SENSOR_DEVICE_ATTR :: "string \<Rightarrow> umode_t \<Rightarrow> s32 \<Rightarrow> attribute" where
  "SENSOR_DEVICE_ATTR n p i = \<lparr>name = n, perm = p, index = i\<rparr>"

definition temp1_input :: attribute where
  "temp1_input = SENSOR_DEVICE_ATTR ''temp1_input'' S_IRUGO LTC2990_TEMP1"
definition temp2_input :: attribute where
  "temp2_input = SENSOR_DEVICE_ATTR ''temp2_input'' S_IRUGO LTC2990_TEMP2"
definition temp3_input :: attribute where
  "temp3_input = SENSOR_DEVICE_ATTR ''temp3_input'' S_IRUGO LTC2990_TEMP3"
definition curr1_input :: attribute where
  "curr1_input = SENSOR_DEVICE_ATTR ''curr1_input'' S_IRUGO LTC2990_CURR1"
definition curr2_input :: attribute where
  "curr2_input = SENSOR_DEVICE_ATTR ''curr2_input'' S_IRUGO LTC2990_CURR2"
definition in0_input :: attribute where
  "in0_input = SENSOR_DEVICE_ATTR ''in0_input'' S_IRUGO LTC2990_IN0"
definition in1_input :: attribute where
  "in1_input = SENSOR_DEVICE_ATTR ''in1_input'' S_IRUGO LTC2990_IN1"
definition in2_input :: attribute where
  "in2_input = SENSOR_DEVICE_ATTR ''in2_input'' S_IRUGO LTC2990_IN2"
definition in3_input :: attribute where
  "in3_input = SENSOR_DEVICE_ATTR ''in3_input'' S_IRUGO LTC2990_IN3"
definition in4_input :: attribute where
  "in4_input = SENSOR_DEVICE_ATTR ''in4_input'' S_IRUGO LTC2990_IN4"
definition mode_attr :: attribute where
  "mode_attr = SENSOR_DEVICE_ATTR ''mode'' (S_IRUGO OR S_IWUSR) 0"

text \<open>
  \<^verbatim>\<open>ltc2990_attrs_visible\<close>. Reading the table beyond its eight entries is undefined
  in C; the model answers \<open>None\<close> there.
\<close>

definition ltc2990_attrs_visible :: "ltc2990_data \<Rightarrow> attribute \<Rightarrow> umode_t option" where
  "ltc2990_attrs_visible data a =
     (if unat (mode data) < length ltc2990_attrs_ena
      then (if (ltc2990_attrs_ena ! unat (mode data)) AND index a \<noteq> 0
            then Some (perm a) else Some 0)
      else None)"

record attribute_group =
  attrs :: "attribute list"
  is_visible :: "(ltc2990_data \<Rightarrow> attribute \<Rightarrow> umode_t option) option"

definition ltc2990_attrs :: "attribute list" where
  "ltc2990_attrs =
     [temp2_input, temp3_input, curr1_input, curr2_input,
      in1_input, in2_input, in3_input, in4_input]"

definition ltc2990_group :: attribute_group where
  "ltc2990_group = \<lparr>attrs = ltc2990_attrs, is_visible = Some ltc2990_attrs_visible\<rparr>"

definition ltc2990_static_attrs :: "attribute list" where
  "ltc2990_static_attrs = [temp1_input, in0_input, mode_attr]"

definition ltc2990_static_group :: attribute_group where
  "ltc2990_static_group = \<lparr>attrs = ltc2990_static_attrs, is_visible = None\<rparr>"

definition ltc2990_groups :: "attribute_group list" where
  "ltc2990_groups = [ltc2990_group, ltc2990_static_group]"

text \<open>
  What sysfs shows of a group: an attribute of a group without \<^verbatim>\<open>is_visible\<close> is
  shown with its own permissions; with \<^verbatim>\<open>is_visible\<close> it is shown when the callback
  returns a mode other than 0.
\<close>

definition shown :: "ltc2990_data \<Rightarrow> attribute_group \<Rightarrow> attribute list" where
  "shown data g =
     (case is_visible g of
        None \<Rightarrow> attrs g
      | Some f \<Rightarrow> filter (\<lambda>a. f data a \<noteq> Some 0 \<and> f data a \<noteq> None) (attrs g))"

section \<open>Probe\<close>

text \<open>
  \<^verbatim>\<open>ltc2990_i2c_probe\<close>. \<open>functionality\<close> is the result of
  \<^verbatim>\<open>i2c_check_functionality\<close>, \<open>allocated\<close> tells whether \<^verbatim>\<open>devm_kzalloc\<close> returned
  memory, \<open>of_mode\<close> is \<open>None\<close> without a device-tree node and otherwise the return
  value of \<^verbatim>\<open>of_property_read_u32\<close> with the value it stored in \<^verbatim>\<open>data->mode\<close>.
  The answer to \<open>Hwmon_device_register\<close> is \<^verbatim>\<open>PTR_ERR_OR_ZERO\<close> of the pointer returned.
  The result holds the driver data as the function leaves it, when it was allocated.
\<close>

text \<open>
  Lines 312 to 318: the zeroed allocation, then the device-tree property read straight into
  \<^verbatim>\<open>data->mode\<close>, or the default when there is no node or the read fails.
\<close>

definition ltc2990_probe_read_mode :: "kernel \<Rightarrow> (s32 \<times> u32) option \<Rightarrow> ltc2990_data" where
  "ltc2990_probe_read_mode i2c of_mode =
     (let data = \<lparr>kern = i2c, mode = 0\<rparr>
      in (case of_mode of
            None \<Rightarrow> data\<lparr>mode := LTC2990_CONTROL_MODE_DEFAULT\<rparr>
          | Some (r, v) \<Rightarrow>
              if r \<noteq> 0 then data\<lparr>mode := LTC2990_CONTROL_MODE_DEFAULT\<rparr>
              else data\<lparr>mode := v\<rparr>))"

text \<open>
  Lines 320 to 325: the range check on \<^verbatim>\<open>data->mode\<close>; the warning prints the value the
  field holds, then the field is overwritten with the default.
\<close>

definition ltc2990_probe_check_mode :: "ltc2990_data \<Rightarrow> ltc2990_data" where
  "ltc2990_probe_check_mode data =
     (if mode data > LTC2990_CONTROL_MODE_MAX
      then data\<lparr>kern := snd (extern (kern data)
                   (Dev_warn (''Warning: Mode %d out of range, defaulting to %d.''
                                @ [CHR 0x0A])
                      (mode data) LTC2990_CONTROL_MODE_DEFAULT)),
                mode := LTC2990_CONTROL_MODE_DEFAULT\<rparr>
      else data)"

definition ltc2990_i2c_probe ::
  "kernel \<Rightarrow> bool \<Rightarrow> bool \<Rightarrow> (s32 \<times> u32) option \<Rightarrow> s32 \<times> ltc2990_data option" where
  "ltc2990_i2c_probe i2c functionality allocated of_mode =
     (if \<not> functionality then (- ENODEV, None)
      else if \<not> allocated then (- ENOMEM, None)
      else
        let data = ltc2990_probe_read_mode i2c of_mode;
            data = ltc2990_probe_check_mode data
        in (case ltc2990_write_control_trigger data of (ret, data) \<Rightarrow>
              if ret <s 0 then (ret, Some data)
              else
                let k1 = snd (extern (kern data) Mutex_init)
                in (case extern k1 Hwmon_device_register of (ret, k2) \<Rightarrow>
                      (ret, Some (data\<lparr>kern := k2\<rparr>)))))"

section \<open>Word arithmetic without overflow\<close>

lemma and_3FFF: "(raw :: s32) AND 0x3FFF = take_bit 14 raw"
  by (simp add: take_bit_eq_mask mask_eq_exp_minus_1)

lemma and_1FFF: "(raw :: s32) AND 0x1FFF = take_bit 13 raw"
  by (simp add: take_bit_eq_mask mask_eq_exp_minus_1)

lemma test_bit14: "((raw :: s32) AND BIT 14 \<noteq> 0) = bit raw 14"
  by (simp add: BIT_def bit_iff_and_push_bit_not_eq_0)

lemma sint_word_of_int_s32:
  "- (2 ^ 31) \<le> k \<Longrightarrow> k < 2 ^ 31 \<Longrightarrow> sint (word_of_int k :: s32) = k"
  by (simp add: sint_sbintrunc' signed_take_bit_int_eq_self)

lemma take_bit_s32_mod: "take_bit n (w :: s32) = word_of_int (uint w mod 2 ^ n)"
  by (simp flip: take_bit_eq_mod unsigned_take_bit_eq)

lemma signed_take_bit_14_int:
  "signed_take_bit 14 (k::int) = (if bit k 14 then k mod 16384 - 16384 else k mod 16384)"
proof -
  have "take_bit (Suc 14) k = 2 ^ 14 * of_bool (bit k 14) + take_bit 14 k"
    by (rule take_bit_Suc_from_most)
  then show ?thesis
    by (simp add: signed_take_bit_eq_take_bit_minus take_bit_eq_mod)
qed

lemma voltage_to_int_sint:
  "sint (ltc2990_voltage_to_int raw) = 4 * signed_take_bit 14 (uint raw)"
proof -
  define X where "X = uint raw mod 16384"
  have X: "0 \<le> X" "X < 16384" by (simp_all add: X_def)
  have t: "raw AND 0x3FFF = word_of_int X"
    unfolding X_def by (simp add: take_bit_s32_mod and_3FFF)
  have s: "signed_take_bit 14 (uint raw) = (if bit raw 14 then X - 16384 else X)"
    unfolding X_def by (simp add: signed_take_bit_14_int bit_uint_iff)
  have p: "push_bit 2 (word_of_int X :: s32) = word_of_int (4 * X)"
    "push_bit 2 (- (0x4000 - word_of_int X :: s32)) = word_of_int (4 * (X - 16384))"
    by (simp_all add: push_bit_eq_mult)
  have "ltc2990_voltage_to_int raw =
          word_of_int (if bit raw 14 then 4 * (X - 16384) else 4 * X)"
    by (cases "bit raw 14")
      (simp_all only: ltc2990_voltage_to_int_def test_bit14 t p if_True if_False)
  moreover have "sint (word_of_int (if bit raw 14 then 4 * (X - 16384) else 4 * X) :: s32)
                   = (if bit raw 14 then 4 * (X - 16384) else 4 * X)"
    using X by (intro sint_word_of_int_s32) auto
  ultimately show ?thesis by (simp add: s)
qed

lemma voltage_to_int_range:
  "- 65536 \<le> sint (ltc2990_voltage_to_int raw)"
  "sint (ltc2990_voltage_to_int raw) \<le> 65532"
proof -
  have "0 \<le> uint raw mod 16384" "uint raw mod 16384 < 16384" by simp_all
  then show "- 65536 \<le> sint (ltc2990_voltage_to_int raw)"
    "sint (ltc2990_voltage_to_int raw) \<le> 65532"
    unfolding voltage_to_int_sint signed_take_bit_14_int by (auto split: if_splits)
qed

lemma sint_mult_s32:
  assumes "- (2 ^ 31) \<le> sint a * k" "sint a * k < 2 ^ 31"
  shows "sint (a * word_of_int k :: s32) = sint a * k"
proof -
  have "a * word_of_int k = (word_of_int (sint a * k) :: s32)" by simp
  then show ?thesis using assms by (simp only: sint_word_of_int_s32)
qed

lemma sint_c_sdiv:
  assumes "- (2 ^ 31) \<le> sint a sdiv sint b" "sint a sdiv sint b < 2 ^ 31"
  shows "sint (c_sdiv a b) = sint a sdiv sint b"
  unfolding c_sdiv_def using assms by (rule sint_word_of_int_s32)

lemma sdiv_pos: "0 < l \<Longrightarrow> (k::int) sdiv l = sgn k * (\<bar>k\<bar> div l)"
  by (simp add: signed_divide_int_def)

lemma sdiv_bounds:
  assumes "0 < l" "- B \<le> k" "k \<le> B"
  shows "- B \<le> (k::int) sdiv l \<and> k sdiv l \<le> B"
proof -
  have "\<bar>k\<bar> div l \<le> \<bar>k\<bar>"
    by (cases "k = 0") (simp_all add: int_div_le_self)
  moreover have "0 \<le> \<bar>k\<bar> div l"
    using assms(1) by (simp add: pos_imp_zdiv_nonneg_iff)
  ultimately show ?thesis
    using assms by (auto simp: sdiv_pos sgn_if)
qed

lemma uint16_bound: "uint (raw :: 16 word) < 65536"
  using uint_bounded [of raw] by simp

lemma uint_ucast16: "uint (ucast (raw :: 16 word) :: s32) = uint raw"
  by (simp add: uint_up_ucast is_up)

lemma sint_ucast16: "sint (ucast (raw :: 16 word) :: s32) = uint raw"
proof -
  have "ucast raw = (word_of_int (uint raw) :: s32)" by simp
  moreover have "uint raw < 2 ^ 31" using uint16_bound [of raw] by simp
  moreover have "- (2 ^ 31) \<le> uint raw" by (rule order_trans [of _ 0]) simp_all
  ultimately show ?thesis by (simp only: sint_word_of_int_s32)
qed

lemma ucast16_nonneg: "\<not> (ucast (raw :: 16 word) :: s32) <s 0"
  by (simp add: word_sless_alt sint_ucast16)

section \<open>The branches of \<^verbatim>\<open>ltc2990_get_value\<close>\<close>

lemmas channel_defs = LTC2990_IN0_def LTC2990_IN1_def LTC2990_IN2_def LTC2990_IN3_def
  LTC2990_IN4_def LTC2990_CURR1_def LTC2990_CURR2_def LTC2990_TEMP1_def LTC2990_TEMP2_def
  LTC2990_TEMP3_def BIT_def

lemma get_value_temp:
  assumes "idx = LTC2990_TEMP1 \<or> idx = LTC2990_TEMP2 \<or> idx = LTC2990_TEMP3"
    and "ltc2990_reg idx = Some reg"
    and "extern i2c (Smbus_read_word_swapped reg) = (val, i2c')" and "\<not> val <s 0"
  shows "ltc2990_get_value i2c idx result =
           (0, i2c', signed_drop_bit 7 (push_bit 3 (val AND 0x1FFF) * 1000))"
  using assms by (simp add: ltc2990_get_value_def)

lemma get_value_curr:
  assumes "idx = LTC2990_CURR1 \<or> idx = LTC2990_CURR2"
    and "ltc2990_reg idx = Some reg"
    and "extern i2c (Smbus_read_word_swapped reg) = (val, i2c')" and "\<not> val <s 0"
  shows "ltc2990_get_value i2c idx result =
           (0, i2c', c_sdiv (ltc2990_voltage_to_int val * 1942) (4 * 100))"
  using assms by (auto simp add: ltc2990_get_value_def channel_defs)

lemma get_value_in0:
  assumes "idx = LTC2990_IN0"
    and "ltc2990_reg idx = Some reg"
    and "extern i2c (Smbus_read_word_swapped reg) = (val, i2c')" and "\<not> val <s 0"
  shows "ltc2990_get_value i2c idx result =
           (0, i2c', c_sdiv (ltc2990_voltage_to_int val * 30518) (4 * 100 * 1000) + 2500)"
  using assms by (auto simp add: ltc2990_get_value_def channel_defs)

lemma get_value_in:
  assumes "idx = LTC2990_IN1 \<or> idx = LTC2990_IN2 \<or> idx = LTC2990_IN3 \<or> idx = LTC2990_IN4"
    and "ltc2990_reg idx = Some reg"
    and "extern i2c (Smbus_read_word_swapped reg) = (val, i2c')" and "\<not> val <s 0"
  shows "ltc2990_get_value i2c idx result =
           (0, i2c', c_sdiv (ltc2990_voltage_to_int val * 30518) (4 * 100 * 1000))"
  using assms by (auto simp add: ltc2990_get_value_def channel_defs)

lemma temp_sint:
  "sint (signed_drop_bit 7 (push_bit 3 (ucast (raw :: 16 word) AND 0x1FFF) * 1000 :: s32))
     = drop_bit 7 (push_bit 3 (uint raw AND 0x1FFF) * 1000)"
proof -
  define X where "X = uint raw mod 8192"
  have X: "0 \<le> X" "X < 8192" by (simp_all add: X_def)
  have m: "uint raw AND 0x1FFF = X"
  proof -
    have "(mask 13 :: int) = 0x1FFF" by (simp add: mask_eq_exp_minus_1)
    then have "uint raw AND 0x1FFF = take_bit 13 (uint raw)"
      by (simp only: take_bit_eq_mask)
    then show ?thesis by (simp add: X_def take_bit_eq_mod)
  qed
  have "(ucast raw :: s32) AND 0x1FFF = word_of_int X"
    unfolding X_def by (simp add: and_1FFF take_bit_s32_mod uint_ucast16)
  then have "push_bit 3 ((ucast raw :: s32) AND 0x1FFF) * 1000 = word_of_int (X * 8 * 1000)"
    by (simp add: push_bit_eq_mult)
  moreover have "sint (word_of_int (X * 8 * 1000) :: s32) = X * 8 * 1000"
    using X by (intro sint_word_of_int_s32) auto
  ultimately have "sint (push_bit 3 ((ucast raw :: s32) AND 0x1FFF) * 1000) = X * 8 * 1000"
    by (simp only:)
  moreover have "push_bit 3 (uint raw AND 0x1FFF) * 1000 = X * 8 * 1000"
    by (simp add: m push_bit_eq_mult)
  ultimately show ?thesis
    by (simp only: sint_signed_drop_bit_eq)
qed

lemma scaled_sint:
  assumes "0 < K" "K \<le> 32767" "0 < D" "D < 2 ^ 31"
  shows "sint (c_sdiv (ltc2990_voltage_to_int val * word_of_int K) (word_of_int D))
           = (sint (ltc2990_voltage_to_int val) * K) sdiv D"
proof -
  define a where "a = sint (ltc2990_voltage_to_int val)"
  have a: "- 65536 \<le> a" "a \<le> 65532"
    unfolding a_def by (rule voltage_to_int_range)+
  have "a * K \<le> 65532 * 32767"
    using mult_mono [of a 65532 K 32767] a assms by simp
  moreover have "- a * K \<le> 65536 * 32767"
    using mult_mono [of "- a" 65536 K 32767] a assms by simp
  ultimately have r: "- (2 ^ 31) + 1 \<le> a * K" "a * K \<le> 2 ^ 31 - 1"
    by auto
  then have m: "sint (ltc2990_voltage_to_int val * word_of_int K) = a * K"
    unfolding a_def by (intro sint_mult_s32) auto
  have d: "sint (word_of_int D :: s32) = D"
    using assms by (intro sint_word_of_int_s32) auto
  have "- (2 ^ 31 - 1) \<le> (a * K) sdiv D \<and> (a * K) sdiv D \<le> 2 ^ 31 - 1"
    using assms(3) r by (intro sdiv_bounds) auto
  then have "sint (c_sdiv (ltc2990_voltage_to_int val * word_of_int K) (word_of_int D))
           = (a * K) sdiv D"
    by (intro sint_c_sdiv [THEN trans]) (auto simp: m d)
  then show ?thesis by (simp add: a_def)
qed

lemma scale_1942:
  "sint (c_sdiv (ltc2990_voltage_to_int val * 1942) (4 * 100))
     = (sint (ltc2990_voltage_to_int val) * 1942) sdiv 400"
  using scaled_sint [of 1942 400 val] by simp

lemma scale_30518:
  "sint (c_sdiv (ltc2990_voltage_to_int val * 30518) (4 * 100 * 1000))
     = (sint (ltc2990_voltage_to_int val) * 30518) sdiv 400000"
  using scaled_sint [of 30518 400000 val] by simp

lemma scale_30518_offset:
  "sint (c_sdiv (ltc2990_voltage_to_int val * 30518) (4 * 100 * 1000) + 2500)
     = (sint (ltc2990_voltage_to_int val) * 30518) sdiv 400000 + 2500"
proof -
  define q where "q = (sint (ltc2990_voltage_to_int val) * 30518) sdiv 400000"
  have "- 65536 * 30518 \<le> sint (ltc2990_voltage_to_int val) * 30518"
       "sint (ltc2990_voltage_to_int val) * 30518 \<le> 65532 * 30518"
    using voltage_to_int_range [of val] by auto
  then have "- (2000027648) \<le> sint (ltc2990_voltage_to_int val) * 30518"
       "sint (ltc2990_voltage_to_int val) * 30518 \<le> 2000027648"
    by auto
  then have "- 2000027648 \<le> q \<and> q \<le> 2000027648"
    unfolding q_def by (intro sdiv_bounds) auto
  then have q: "- (2 ^ 31) \<le> q + 2500" "q + 2500 < 2 ^ 31" by auto
  have "c_sdiv (ltc2990_voltage_to_int val * 30518) (4 * 100 * 1000) = word_of_int q"
    unfolding q_def by (simp flip: scale_30518)
  then have "c_sdiv (ltc2990_voltage_to_int val * 30518) (4 * 100 * 1000) + 2500
               = word_of_int (q + 2500)"
    by simp
  then show ?thesis
    using q by (simp only: sint_word_of_int_s32 q_def)
qed

section \<open>Kernel calls made by the driver\<close>

lemma extern_read:
  "answer i2c (calls i2c) (Smbus_read_word_swapped reg) = val \<Longrightarrow>
   extern i2c (Smbus_read_word_swapped reg)
     = (val, i2c\<lparr>calls := calls i2c @ [Smbus_read_word_swapped reg]\<rparr>)"
  by (simp add: extern_def)

lemma write_control_trigger_effect:
  obtains ret d1 rest where
    "ltc2990_write_control_trigger d = (ret, d1)"
    "mode d1 = mode d"
    "answer (kern d1) = answer (kern d)"
    "calls (kern d1) = calls (kern d) @
       Smbus_write_byte_data LTC2990_CONTROL (ucast (LTC2990_CONTROL_MEASURE_ALL OR mode d)) # rest"
    "\<forall>r x. Smbus_write_byte_data r x \<in> set rest \<longrightarrow> r = LTC2990_TRIGGER \<and> x = 1"
    "set rest \<inter> {Mutex_init, Mutex_lock, Mutex_unlock, Sysfs_update_group, Hwmon_device_register} = {}"
  by (cases "ltc2990_write_control_trigger d")
    (auto simp: ltc2990_write_control_trigger_def extern_def split: prod.splits if_splits)

lemma set_mode_in_range:
  "kmode \<le> 7 \<Longrightarrow>
   ltc2990_set_mode data (0, kmode) count =
     (case ltc2990_write_control_trigger
             (data\<lparr>kern := snd (extern (kern data) Mutex_lock), mode := of_nat kmode\<rparr>) of
        (ret, d1) \<Rightarrow>
          if ret <s 0 then ltc2990_set_mode_abort ret d1
          else (case extern (kern d1) Sysfs_update_group of (ret, k2) \<Rightarrow>
            if ret <s 0 then ltc2990_set_mode_abort ret (d1\<lparr>kern := k2\<rparr>)
            else ltc2990_set_mode_abort (of_nat count) (d1\<lparr>kern := k2\<rparr>)))"
  by (simp add: ltc2990_set_mode_def LTC2990_CONTROL_MODE_MAX_def)

section \<open>Rows of the mode table and registers of the channels\<close>

lemmas reg_defs = LTC2990_TINT_MSB_def LTC2990_V1_MSB_def LTC2990_V2_MSB_def
  LTC2990_V3_MSB_def LTC2990_V4_MSB_def LTC2990_VCC_MSB_def

lemmas attr_defs = temp1_input_def temp2_input_def temp3_input_def curr1_input_def
  curr2_input_def in0_input_def in1_input_def in2_input_def in3_input_def in4_input_def
  mode_attr_def SENSOR_DEVICE_ATTR_def S_IRUGO_def S_IWUSR_def

lemma shown_group:
  assumes "unat (mode data) = n" "n < 8"
  shows "index ` set (shown data ltc2990_group) =
     [{LTC2990_IN1, LTC2990_IN2, LTC2990_TEMP3},
      {LTC2990_CURR1, LTC2990_TEMP3},
      {LTC2990_CURR1, LTC2990_IN3, LTC2990_IN4},
      {LTC2990_TEMP2, LTC2990_IN3, LTC2990_IN4},
      {LTC2990_TEMP2, LTC2990_CURR2},
      {LTC2990_TEMP2, LTC2990_TEMP3},
      {LTC2990_CURR1, LTC2990_CURR2},
      {LTC2990_IN1, LTC2990_IN2, LTC2990_IN3, LTC2990_IN4}] ! n"
proof -
  from assms(2) consider "n = 0" | "n = 1" | "n = 2" | "n = 3" | "n = 4" | "n = 5" | "n = 6" | "n = 7"
    by linarith
  then show ?thesis
    using assms(1)
    by cases (auto simp add: shown_def ltc2990_group_def ltc2990_attrs_def ltc2990_attrs_visible_def
        ltc2990_attrs_ena_def attr_defs channel_defs)
qed

lemma table_rows:
  assumes "n < 8"
  shows "{c \<in> {LTC2990_IN0, LTC2990_IN1, LTC2990_IN2, LTC2990_IN3, LTC2990_IN4,
               LTC2990_CURR1, LTC2990_CURR2, LTC2990_TEMP1, LTC2990_TEMP2, LTC2990_TEMP3}.
            (ltc2990_attrs_ena ! n) AND c \<noteq> 0} =
     [{LTC2990_IN1, LTC2990_IN2, LTC2990_TEMP3},
      {LTC2990_CURR1, LTC2990_TEMP3},
      {LTC2990_CURR1, LTC2990_IN3, LTC2990_IN4},
      {LTC2990_TEMP2, LTC2990_IN3, LTC2990_IN4},
      {LTC2990_TEMP2, LTC2990_CURR2},
      {LTC2990_TEMP2, LTC2990_TEMP3},
      {LTC2990_CURR1, LTC2990_CURR2},
      {LTC2990_IN1, LTC2990_IN2, LTC2990_IN3, LTC2990_IN4}] ! n"
proof -
  from assms consider "n = 0" | "n = 1" | "n = 2" | "n = 3" | "n = 4" | "n = 5" | "n = 6" | "n = 7"
    by linarith
  then show ?thesis
    by cases (auto simp add: ltc2990_attrs_ena_def channel_defs)
qed

lemma table_excludes_static:
  assumes "n < 8"
  shows "(ltc2990_attrs_ena ! n) AND (LTC2990_TEMP1 OR LTC2990_IN0) = 0"
proof -
  from assms consider "n = 0" | "n = 1" | "n = 2" | "n = 3" | "n = 4" | "n = 5" | "n = 6" | "n = 7"
    by linarith
  then show ?thesis
    by cases (simp_all add: ltc2990_attrs_ena_def channel_defs)
qed

lemma get_value_reads:
  "ltc2990_reg idx = Some reg \<Longrightarrow>
   calls (fst (snd (ltc2990_get_value i2c idx result)))
     = calls i2c @ [Smbus_read_word_swapped reg]"
  by (simp add: ltc2990_get_value_def extern_def)

lemma reg_unmapped:
  "idx \<notin> {LTC2990_TEMP1, LTC2990_IN1, LTC2990_CURR1, LTC2990_TEMP2, LTC2990_IN2,
            LTC2990_IN3, LTC2990_CURR2, LTC2990_TEMP3, LTC2990_IN4, LTC2990_IN0}
   \<Longrightarrow> ltc2990_reg idx = None"
  by (simp add: ltc2990_reg_def)

section \<open>The probe after the mode is fixed\<close>

lemma probe_out_of_range:
  assumes "7 < v"
  shows "ltc2990_i2c_probe i2c True True (Some (0, v)) =
     (case ltc2990_write_control_trigger
        \<lparr>kern = i2c\<lparr>calls := calls i2c @
                  [Dev_warn (''Warning: Mode %d out of range, defaulting to %d.'' @ [CHR 0x0A])
                     v LTC2990_CONTROL_MODE_DEFAULT]\<rparr>,
         mode = LTC2990_CONTROL_MODE_DEFAULT\<rparr> of (ret, data) \<Rightarrow>
        if ret <s 0 then (ret, Some data)
        else
          let k1 = snd (extern (kern data) Mutex_init)
          in (case extern k1 Hwmon_device_register of
                (ret, k2) \<Rightarrow> (ret, Some (data\<lparr>kern := k2\<rparr>))))"
  using assms
  by (simp add: ltc2990_i2c_probe_def ltc2990_probe_read_mode_def ltc2990_probe_check_mode_def
      LTC2990_CONTROL_MODE_MAX_def extern_def Let_def)

lemma probe_default:
  "ltc2990_i2c_probe i2c True True (Some (0, LTC2990_CONTROL_MODE_DEFAULT)) =
     (case ltc2990_write_control_trigger
        \<lparr>kern = i2c, mode = LTC2990_CONTROL_MODE_DEFAULT\<rparr> of (ret, data) \<Rightarrow>
        if ret <s 0 then (ret, Some data)
        else
          let k1 = snd (extern (kern data) Mutex_init)
          in (case extern k1 Hwmon_device_register of
                (ret, k2) \<Rightarrow> (ret, Some (data\<lparr>kern := k2\<rparr>))))"
  by (simp add: ltc2990_i2c_probe_def ltc2990_probe_read_mode_def ltc2990_probe_check_mode_def
      LTC2990_CONTROL_MODE_MAX_def LTC2990_CONTROL_MODE_DEFAULT_def extern_def Let_def)

section \<open>Properties of the value codec\<close>

text \<open>
  C1. \<^verbatim>\<open>ltc2990_voltage_to_int\<close> (the spec's \<open>decode_signed14\<close>) is a function of its
  argument alone, defined on every word, so in particular on the 16-bit register words.
  Its value is four times the two's-complement reading of bits 0 to 14 of the word, with
  bit 14 as the sign; it maps 0 to 0, and every word that has bit 14 set and bits 0 to 13
  clear to \<open>-65536\<close>.
\<close>

theorem decode_signed14:
  "sint (ltc2990_voltage_to_int raw) = 4 * signed_take_bit 14 (uint raw)
   \<and> ltc2990_voltage_to_int 0 = 0
   \<and> (raw AND BIT 14 \<noteq> 0 \<and> raw AND 0x3FFF = 0
        \<longrightarrow> sint (ltc2990_voltage_to_int raw) = - 65536)"
proof (intro conjI impI)
  show "sint (ltc2990_voltage_to_int raw) = 4 * signed_take_bit 14 (uint raw)"
    by (rule voltage_to_int_sint)
  show "ltc2990_voltage_to_int 0 = 0"
    by (simp add: ltc2990_voltage_to_int_def)
next
  assume "raw AND BIT 14 \<noteq> 0 \<and> raw AND 0x3FFF = 0"
  then have "ltc2990_voltage_to_int raw = push_bit 2 (- 0x4000)"
    by (simp add: ltc2990_voltage_to_int_def)
  then show "sint (ltc2990_voltage_to_int raw) = - 65536"
    by simp
qed

theorem decode_signed14_witness:
  "(0xC000 :: s32) AND BIT 14 \<noteq> 0 \<and> (0xC000 :: s32) AND 0x3FFF = 0
   \<and> sint (ltc2990_voltage_to_int 0xC000) = - 65536
   \<and> 4 * signed_take_bit 14 (uint (0xC000 :: s32)) = - 65536"
  using decode_signed14 [of "0xC000"] by (simp add: BIT_def)

text \<open>
  C2. On each of the three temperature channels, when the transfer returns the register
  word \<open>raw\<close>, \<^verbatim>\<open>ltc2990_get_value\<close> succeeds with
  \<open>(((raw & 0x1FFF) << 3) * 1000) >> 7\<close>: the low 13 bits taken unsigned, shifted left
  by 3, multiplied by 1000 and shifted right arithmetically by 7. The 32-bit computation
  does not wrap, so the value is the one the formula has on the integers.
\<close>

theorem convert_temperature:
  assumes "idx = LTC2990_TEMP1 \<or> idx = LTC2990_TEMP2 \<or> idx = LTC2990_TEMP3"
    and "ltc2990_reg idx = Some reg"
    and "answer i2c (calls i2c) (Smbus_read_word_swapped reg) = ucast (raw :: 16 word)"
  shows "\<exists>v. ltc2990_get_value i2c idx result
               = (0, i2c\<lparr>calls := calls i2c @ [Smbus_read_word_swapped reg]\<rparr>, v)
           \<and> v = signed_drop_bit 7 (push_bit 3 (ucast raw AND 0x1FFF) * 1000)
           \<and> sint v = drop_bit 7 (push_bit 3 (uint raw AND 0x1FFF) * 1000)"
  using get_value_temp [OF assms(1,2) extern_read [OF assms(3)] ucast16_nonneg, of result]
    temp_sint [of raw]
  by blast

theorem convert_temperature_witness:
  "ltc2990_get_value \<lparr>answer = (\<lambda>h c. 0x0190), calls = []\<rparr> LTC2990_TEMP1 0
     = (0, \<lparr>answer = (\<lambda>h c. 0x0190), calls = [Smbus_read_word_swapped LTC2990_TINT_MSB]\<rparr>,
        25000)"
  using convert_temperature [where idx = LTC2990_TEMP1 and reg = LTC2990_TINT_MSB
      and raw = "0x0190" and result = 0 and i2c = "\<lparr>answer = (\<lambda>h c. 0x0190), calls = []\<rparr>"]
  by (simp add: ltc2990_reg_def channel_defs)

text \<open>
  C3. When the transfer returns the register word \<open>raw\<close>, the supply channel IN0 yields
  the decoded word times 30518, divided by 400000 with truncation toward zero, plus 2500;
  each of IN1 to IN4 yields the same quotient without the offset. A word that decodes to
  zero therefore gives exactly 2500 on IN0 and exactly 0 on IN1 to IN4. Nothing wraps in
  32 bits.
\<close>

theorem convert_voltage:
  assumes "ltc2990_reg idx = Some reg"
    and "answer i2c (calls i2c) (Smbus_read_word_swapped reg) = ucast (raw :: 16 word)"
  shows "(idx = LTC2990_IN0 \<longrightarrow>
            (\<exists>v. ltc2990_get_value i2c idx result
                    = (0, i2c\<lparr>calls := calls i2c @ [Smbus_read_word_swapped reg]\<rparr>, v)
                \<and> (let a = sint (ltc2990_voltage_to_int (ucast raw)) * 30518
                   in sint v = sgn a * (\<bar>a\<bar> div 400000) + 2500)
                \<and> (ltc2990_voltage_to_int (ucast raw) = 0 \<longrightarrow> v = 2500)))
       \<and> (idx = LTC2990_IN1 \<or> idx = LTC2990_IN2 \<or> idx = LTC2990_IN3 \<or> idx = LTC2990_IN4 \<longrightarrow>
            (\<exists>v. ltc2990_get_value i2c idx result
                    = (0, i2c\<lparr>calls := calls i2c @ [Smbus_read_word_swapped reg]\<rparr>, v)
                \<and> (let a = sint (ltc2990_voltage_to_int (ucast raw)) * 30518
                   in sint v = sgn a * (\<bar>a\<bar> div 400000))
                \<and> (ltc2990_voltage_to_int (ucast raw) = 0 \<longrightarrow> v = 0)))"
proof (intro conjI impI)
  define a where "a = sint (ltc2990_voltage_to_int (ucast raw)) * 30518"
  define q where "q = c_sdiv (ltc2990_voltage_to_int (ucast raw) * 30518) (4 * 100 * 1000)"
  have t: "a sdiv 400000 = sgn a * (\<bar>a\<bar> div 400000)"
    by (simp add: sdiv_pos)
  have z: "q = 0" if "ltc2990_voltage_to_int (ucast raw) = 0"
    using that by (simp add: q_def c_sdiv_def)
  {
    assume i: "idx = LTC2990_IN0"
    have g: "ltc2990_get_value i2c idx result
               = (0, i2c\<lparr>calls := calls i2c @ [Smbus_read_word_swapped reg]\<rparr>, q + 2500)"
      unfolding q_def
      by (rule get_value_in0 [OF i assms(1) extern_read [OF assms(2)] ucast16_nonneg])
    have s: "sint (q + 2500) = a sdiv 400000 + 2500"
      unfolding q_def a_def by (rule scale_30518_offset)
    show "\<exists>v. ltc2990_get_value i2c idx result
                 = (0, i2c\<lparr>calls := calls i2c @ [Smbus_read_word_swapped reg]\<rparr>, v)
             \<and> (let a = sint (ltc2990_voltage_to_int (ucast raw)) * 30518
                in sint v = sgn a * (\<bar>a\<bar> div 400000) + 2500)
             \<and> (ltc2990_voltage_to_int (ucast raw) = 0 \<longrightarrow> v = 2500)"
      unfolding Let_def a_def [symmetric]
      using g s t z by (intro exI [of _ "q + 2500"]) simp
  }
  {
    assume i: "idx = LTC2990_IN1 \<or> idx = LTC2990_IN2 \<or> idx = LTC2990_IN3 \<or> idx = LTC2990_IN4"
    have g: "ltc2990_get_value i2c idx result
               = (0, i2c\<lparr>calls := calls i2c @ [Smbus_read_word_swapped reg]\<rparr>, q)"
      unfolding q_def
      by (rule get_value_in [OF i assms(1) extern_read [OF assms(2)] ucast16_nonneg])
    have s: "sint q = a sdiv 400000"
      unfolding q_def a_def by (rule scale_30518)
    show "\<exists>v. ltc2990_get_value i2c idx result
                 = (0, i2c\<lparr>calls := calls i2c @ [Smbus_read_word_swapped reg]\<rparr>, v)
             \<and> (let a = sint (ltc2990_voltage_to_int (ucast raw)) * 30518
                in sint v = sgn a * (\<bar>a\<bar> div 400000))
             \<and> (ltc2990_voltage_to_int (ucast raw) = 0 \<longrightarrow> v = 0)"
      unfolding Let_def a_def [symmetric]
      using g s t z by (intro exI [of _ q]) simp
  }
qed

theorem convert_voltage_witness:
  "ltc2990_get_value \<lparr>answer = (\<lambda>h c. 0), calls = []\<rparr> LTC2990_IN0 7
     = (0, \<lparr>answer = (\<lambda>h c. 0), calls = [Smbus_read_word_swapped LTC2990_VCC_MSB]\<rparr>, 2500)
   \<and> ltc2990_get_value \<lparr>answer = (\<lambda>h c. 0), calls = []\<rparr> LTC2990_IN1 7
     = (0, \<lparr>answer = (\<lambda>h c. 0), calls = [Smbus_read_word_swapped LTC2990_V1_MSB]\<rparr>, 0)"
  using convert_voltage [where idx = LTC2990_IN0 and reg = LTC2990_VCC_MSB
      and raw = 0 and result = 7 and i2c = "\<lparr>answer = (\<lambda>h c. 0), calls = []\<rparr>"]
    convert_voltage [where idx = LTC2990_IN1 and reg = LTC2990_V1_MSB
      and raw = 0 and result = 7 and i2c = "\<lparr>answer = (\<lambda>h c. 0), calls = []\<rparr>"]
  by (simp add: ltc2990_reg_def channel_defs ltc2990_voltage_to_int_def)

text \<open>
  C4. On the two differential-current channels, when the transfer returns the register
  word \<open>raw\<close>, the result is the decoded word times 1942, divided by 400 with the
  quotient truncated toward zero: for a negative product that 400 does not divide it is
  one more than the floor quotient.
\<close>

theorem convert_current:
  assumes "idx = LTC2990_CURR1 \<or> idx = LTC2990_CURR2"
    and "ltc2990_reg idx = Some reg"
    and "answer i2c (calls i2c) (Smbus_read_word_swapped reg) = ucast (raw :: 16 word)"
  shows "\<exists>v. ltc2990_get_value i2c idx result
               = (0, i2c\<lparr>calls := calls i2c @ [Smbus_read_word_swapped reg]\<rparr>, v)
           \<and> (let a = sint (ltc2990_voltage_to_int (ucast raw)) * 1942
              in sint v = sgn a * (\<bar>a\<bar> div 400)
                 \<and> (a < 0 \<and> \<not> 400 dvd a \<longrightarrow> sint v = a div 400 + 1))"
proof -
  define a where "a = sint (ltc2990_voltage_to_int (ucast raw)) * 1942"
  define v where "v = c_sdiv (ltc2990_voltage_to_int (ucast raw) * 1942) (4 * 100)"
  have g: "ltc2990_get_value i2c idx result
             = (0, i2c\<lparr>calls := calls i2c @ [Smbus_read_word_swapped reg]\<rparr>, v)"
    unfolding v_def
    by (rule get_value_curr [OF assms(1,2) extern_read [OF assms(3)] ucast16_nonneg])
  have s: "sint v = a sdiv 400"
    unfolding v_def a_def by (rule scale_1942)
  have t: "a sdiv 400 = sgn a * (\<bar>a\<bar> div 400)"
    by (simp add: sdiv_pos)
  have f: "a sdiv 400 = a div 400 + 1" if "a < 0" "\<not> 400 dvd a"
    using that by (simp add: signed_divide_int_eq_divide_int)
  show ?thesis
    unfolding Let_def a_def [symmetric]
    using g s t f by (intro exI [of _ v]) simp
qed

theorem convert_current_witness:
  "ltc2990_get_value \<lparr>answer = (\<lambda>h c. 0x7FFF), calls = []\<rparr> LTC2990_CURR2 0
     = (0, \<lparr>answer = (\<lambda>h c. 0x7FFF), calls = [Smbus_read_word_swapped LTC2990_V3_MSB]\<rparr>,
        - 19)
   \<and> sint (ltc2990_voltage_to_int 0x7FFF) * 1942 = - 7768
   \<and> (- 7768 :: int) div 400 = - 20"
proof -
  have d: "sint (ltc2990_voltage_to_int 0x7FFF) = - 4"
    by (simp add: voltage_to_int_sint)
  have r: "ltc2990_reg LTC2990_CURR2 = Some LTC2990_V3_MSB"
    by (simp add: ltc2990_reg_def channel_defs)
  obtain v where g: "ltc2990_get_value \<lparr>answer = (\<lambda>h c. 0x7FFF), calls = []\<rparr> LTC2990_CURR2 0
     = (0, \<lparr>answer = (\<lambda>h c. 0x7FFF), calls = [Smbus_read_word_swapped LTC2990_V3_MSB]\<rparr>, v)"
    and v: "sint v = - 19"
    using convert_current [where idx = LTC2990_CURR2 and reg = LTC2990_V3_MSB
      and raw = "0x7FFF" and result = 0 and i2c = "\<lparr>answer = (\<lambda>h c. 0x7FFF), calls = []\<rparr>"]
    by (auto simp: r d Let_def)
  from v have "sint v = sint (- 19 :: s32)" by simp
  then have "v = - 19" by (rule signed_word_eqI)
  with g d show ?thesis by simp
qed

section \<open>Properties of the mode table\<close>

text \<open>
  C5. For each mode 0 to 7 the channels of the attributes that \<^verbatim>\<open>ltc2990_group\<close>
  shows are exactly those of the row of that mode, \<open>{IN1, IN2, TEMP3}\<close> for mode 0 down
  to \<open>{IN1, IN2, IN3, IN4}\<close> for mode 7; they depend on the mode alone, and they are
  the channels whose bit is set in the entry of \<^verbatim>\<open>ltc2990_attrs_ena\<close>.
  The static group always shows \<^verbatim>\<open>temp1_input\<close> (TEMP1) and \<^verbatim>\<open>in0_input\<close> (IN0),
  and no row of the table has the bit of TEMP1 or of IN0.
\<close>

theorem mode_table:
  assumes "mode data \<le> 7"
  shows "index ` set (shown data ltc2990_group) =
           [{LTC2990_IN1, LTC2990_IN2, LTC2990_TEMP3},
            {LTC2990_CURR1, LTC2990_TEMP3},
            {LTC2990_CURR1, LTC2990_IN3, LTC2990_IN4},
            {LTC2990_TEMP2, LTC2990_IN3, LTC2990_IN4},
            {LTC2990_TEMP2, LTC2990_CURR2},
            {LTC2990_TEMP2, LTC2990_TEMP3},
            {LTC2990_CURR1, LTC2990_CURR2},
            {LTC2990_IN1, LTC2990_IN2, LTC2990_IN3, LTC2990_IN4}] ! unat (mode data)
       \<and> shown (data\<lparr>kern := k\<rparr>) ltc2990_group = shown data ltc2990_group
       \<and> shown data ltc2990_static_group = [temp1_input, in0_input, mode_attr]
       \<and> index temp1_input = LTC2990_TEMP1 \<and> index in0_input = LTC2990_IN0
       \<and> {c \<in> {LTC2990_IN0, LTC2990_IN1, LTC2990_IN2, LTC2990_IN3, LTC2990_IN4,
                 LTC2990_CURR1, LTC2990_CURR2, LTC2990_TEMP1, LTC2990_TEMP2, LTC2990_TEMP3}.
              (ltc2990_attrs_ena ! unat (mode data)) AND c \<noteq> 0} =
           [{LTC2990_IN1, LTC2990_IN2, LTC2990_TEMP3},
            {LTC2990_CURR1, LTC2990_TEMP3},
            {LTC2990_CURR1, LTC2990_IN3, LTC2990_IN4},
            {LTC2990_TEMP2, LTC2990_IN3, LTC2990_IN4},
            {LTC2990_TEMP2, LTC2990_CURR2},
            {LTC2990_TEMP2, LTC2990_TEMP3},
            {LTC2990_CURR1, LTC2990_CURR2},
            {LTC2990_IN1, LTC2990_IN2, LTC2990_IN3, LTC2990_IN4}] ! unat (mode data)
       \<and> (ltc2990_attrs_ena ! unat (mode data)) AND (LTC2990_TEMP1 OR LTC2990_IN0) = 0"
proof -
  have n: "unat (mode data) < 8"
    using assms by (simp add: word_le_nat_alt)
  show ?thesis
  proof (intro conjI)
    show "shown (data\<lparr>kern := k\<rparr>) ltc2990_group = shown data ltc2990_group"
      by (simp add: shown_def ltc2990_group_def ltc2990_attrs_visible_def)
    show "shown data ltc2990_static_group = [temp1_input, in0_input, mode_attr]"
      by (simp add: shown_def ltc2990_static_group_def ltc2990_static_attrs_def)
  qed (simp_all only: shown_group [OF refl n] table_rows [OF n] table_excludes_static [OF n],
      simp_all add: attr_defs)
qed

theorem mode_table_witness:
  "index ` set (shown \<lparr>kern = \<lparr>answer = (\<lambda>h c. 0), calls = []\<rparr>, mode = 3\<rparr> ltc2990_group)
     = {LTC2990_TEMP2, LTC2990_IN3, LTC2990_IN4}
   \<and> map name (shown \<lparr>kern = \<lparr>answer = (\<lambda>h c. 0), calls = []\<rparr>, mode = 3\<rparr> ltc2990_group)
     = [''temp2_input'', ''in3_input'', ''in4_input'']"
  using mode_table [where data = "\<lparr>kern = \<lparr>answer = (\<lambda>h c. 0), calls = []\<rparr>, mode = 3\<rparr>"]
  by (simp add: shown_def ltc2990_group_def ltc2990_attrs_def ltc2990_attrs_visible_def
      ltc2990_attrs_ena_def attr_defs channel_defs)

section \<open>Properties of the mode change\<close>

text \<open>
  C6. When the parsed mode is greater than 7, \<^verbatim>\<open>ltc2990_set_mode\<close> returns
  \<open>-EINVAL\<close> (\<open>-22\<close>) and leaves the driver data as it was: the stored mode is the
  same, and no kernel call has been made, so the mutex was not taken, nothing was written
  to the control register and sysfs was not asked to update the group.
\<close>

theorem set_mode_rejects:
  "7 < kmode \<Longrightarrow> ltc2990_set_mode data (0, kmode) count = (- 22, data)"
  by (simp add: ltc2990_set_mode_def LTC2990_CONTROL_MODE_MAX_def EINVAL_def)

theorem set_mode_rejects_witness:
  "(7::nat) < 8 \<and> ltc2990_set_mode \<lparr>kern = \<lparr>answer = (\<lambda>h c. 0), calls = []\<rparr>, mode = 3\<rparr> (0, 8) 2
     = (- 22, \<lparr>kern = \<lparr>answer = (\<lambda>h c. 0), calls = []\<rparr>, mode = 3\<rparr>)"
  using set_mode_rejects [of 8 "\<lparr>kern = \<lparr>answer = (\<lambda>h c. 0), calls = []\<rparr>, mode = 3\<rparr>" 2]
  by simp

text \<open>
  C7. For a mode from 0 to 7, when \<^verbatim>\<open>ltc2990_write_control_trigger\<close> fails (returns a
  negative value) on the data that already holds the new mode, \<^verbatim>\<open>ltc2990_set_mode\<close>
  returns that error, the stored mode is the new mode, and the calls made are: the lock,
  the control write carrying the new mode, what the failing start of conversion did
  after it (no sysfs update among it), and the unlock.
\<close>

theorem set_mode_not_rolled_back:
  assumes "kmode \<le> 7"
    and "fst (ltc2990_write_control_trigger
               (data\<lparr>kern := snd (extern (kern data) Mutex_lock), mode := of_nat kmode\<rparr>)) <s 0"
  shows "\<exists>d' rest.
           ltc2990_set_mode data (0, kmode) count
             = (sint (fst (ltc2990_write_control_trigger
                  (data\<lparr>kern := snd (extern (kern data) Mutex_lock), mode := of_nat kmode\<rparr>))), d')
         \<and> mode d' = of_nat kmode \<and> unat (mode d') = kmode
         \<and> calls (kern d') = calls (kern data) @
              [Mutex_lock,
               Smbus_write_byte_data LTC2990_CONTROL
                 (ucast (LTC2990_CONTROL_MEASURE_ALL OR (of_nat kmode :: u32)))]
              @ rest @ [Mutex_unlock]
         \<and> Sysfs_update_group \<notin> set rest"
proof -
  define d0 where "d0 = data\<lparr>kern := snd (extern (kern data) Mutex_lock), mode := of_nat kmode\<rparr>"
  have d0: "mode d0 = of_nat kmode" "calls (kern d0) = calls (kern data) @ [Mutex_lock]"
    by (simp_all add: d0_def extern_def)
  obtain ret d1 rest where w: "ltc2990_write_control_trigger d0 = (ret, d1)"
    and m: "mode d1 = mode d0"
    and c: "calls (kern d1) = calls (kern d0) @
       Smbus_write_byte_data LTC2990_CONTROL (ucast (LTC2990_CONTROL_MEASURE_ALL OR mode d0)) # rest"
    and r: "set rest \<inter> {Mutex_init, Mutex_lock, Mutex_unlock, Sysfs_update_group, Hwmon_device_register} = {}"
    by (rule write_control_trigger_effect [of d0])
  have k: "unat (of_nat kmode :: u32) = kmode"
    using assms(1) by (simp add: unat_of_nat)
  have neg: "ret <s 0"
    using assms(2) w by (simp add: d0_def)
  have "ltc2990_set_mode data (0, kmode) count = ltc2990_set_mode_abort ret d1"
    unfolding set_mode_in_range [OF assms(1)] d0_def [symmetric] w
    using neg by simp
  then have sm: "ltc2990_set_mode data (0, kmode) count
      = (sint ret, d1\<lparr>kern := snd (extern (kern d1) Mutex_unlock)\<rparr>)"
    by (simp add: ltc2990_set_mode_abort_def)
  show ?thesis
    unfolding d0_def [symmetric] sm w fst_conv
    using r by (intro exI [of _ "d1\<lparr>kern := snd (extern (kern d1) Mutex_unlock)\<rparr>"] exI [of _ rest])
      (simp add: m c d0 k extern_def)
qed

theorem set_mode_not_rolled_back_witness:
  "fst (ltc2990_set_mode
     \<lparr>kern = \<lparr>answer = (\<lambda>h c. if c = Smbus_write_byte_data LTC2990_TRIGGER 1 then - 5 else 0),
              calls = []\<rparr>, mode = 6\<rparr> (0, 3) 2) = - 5
   \<and> mode (snd (ltc2990_set_mode
     \<lparr>kern = \<lparr>answer = (\<lambda>h c. if c = Smbus_write_byte_data LTC2990_TRIGGER 1 then - 5 else 0),
              calls = []\<rparr>, mode = 6\<rparr> (0, 3) 2)) = 3"
proof -
  let ?k = "\<lparr>answer = (\<lambda>h c. if c = Smbus_write_byte_data LTC2990_TRIGGER 1 then - 5 else (0::s32)),
              calls = []\<rparr>"
  let ?d = "\<lparr>kern = ?k, mode = 6\<rparr>"
  have e: "fst (ltc2990_write_control_trigger
                 (?d\<lparr>kern := snd (extern (kern ?d) Mutex_lock), mode := of_nat 3\<rparr>)) = - 5"
    by (simp add: ltc2990_write_control_trigger_def extern_def LTC2990_CONTROL_def
        LTC2990_TRIGGER_def word_sless_alt)
  have h: "fst (ltc2990_write_control_trigger
                 (?d\<lparr>kern := snd (extern (kern ?d) Mutex_lock), mode := of_nat 3\<rparr>)) <s 0"
    unfolding e by (simp add: word_sless_alt)
  obtain d' where "ltc2990_set_mode ?d (0, 3) 2 = (sint (- 5 :: s32), d')" "mode d' = of_nat 3"
    using set_mode_not_rolled_back [where kmode = 3 and data = ?d and count = 2, OF _ h]
    unfolding e by auto
  then show ?thesis by simp
qed

section \<open>Register selection and the out-parameter\<close>

text \<open>
  C8. \<^verbatim>\<open>ltc2990_get_value\<close> makes exactly one transfer, a word read of TINT for TEMP1,
  V1 for IN1, CURR1 and TEMP2, V2 for IN2, V3 for IN3, CURR2 and TEMP3, V4 for IN4 and VCC
  for IN0. For any other index it returns \<open>-EINVAL\<close> without any kernel call and without
  writing the result. The stored mode has no part in it.
\<close>

theorem register_map:
  "(\<forall>(c, r) \<in> set [(LTC2990_TEMP1, LTC2990_TINT_MSB),
                    (LTC2990_IN1, LTC2990_V1_MSB), (LTC2990_CURR1, LTC2990_V1_MSB),
                    (LTC2990_TEMP2, LTC2990_V1_MSB),
                    (LTC2990_IN2, LTC2990_V2_MSB),
                    (LTC2990_IN3, LTC2990_V3_MSB), (LTC2990_CURR2, LTC2990_V3_MSB),
                    (LTC2990_TEMP3, LTC2990_V3_MSB),
                    (LTC2990_IN4, LTC2990_V4_MSB),
                    (LTC2990_IN0, LTC2990_VCC_MSB)].
       calls (fst (snd (ltc2990_get_value i2c c result)))
         = calls i2c @ [Smbus_read_word_swapped r])
   \<and> (idx \<notin> {LTC2990_TEMP1, LTC2990_IN1, LTC2990_CURR1, LTC2990_TEMP2, LTC2990_IN2,
               LTC2990_IN3, LTC2990_CURR2, LTC2990_TEMP3, LTC2990_IN4, LTC2990_IN0}
        \<longrightarrow> ltc2990_get_value i2c idx result = (- EINVAL, i2c, result))
   \<and> ltc2990_get_value (kern (data\<lparr>mode := m\<rparr>)) idx result
        = ltc2990_get_value (kern data) idx result"
proof (intro conjI impI)
  show "\<forall>(c, r) \<in> set [(LTC2990_TEMP1, LTC2990_TINT_MSB),
                    (LTC2990_IN1, LTC2990_V1_MSB), (LTC2990_CURR1, LTC2990_V1_MSB),
                    (LTC2990_TEMP2, LTC2990_V1_MSB),
                    (LTC2990_IN2, LTC2990_V2_MSB),
                    (LTC2990_IN3, LTC2990_V3_MSB), (LTC2990_CURR2, LTC2990_V3_MSB),
                    (LTC2990_TEMP3, LTC2990_V3_MSB),
                    (LTC2990_IN4, LTC2990_V4_MSB),
                    (LTC2990_IN0, LTC2990_VCC_MSB)].
       calls (fst (snd (ltc2990_get_value i2c c result)))
         = calls i2c @ [Smbus_read_word_swapped r]"
    by (auto intro!: get_value_reads simp: ltc2990_reg_def channel_defs)
next
  assume "idx \<notin> {LTC2990_TEMP1, LTC2990_IN1, LTC2990_CURR1, LTC2990_TEMP2, LTC2990_IN2,
               LTC2990_IN3, LTC2990_CURR2, LTC2990_TEMP3, LTC2990_IN4, LTC2990_IN0}"
  then show "ltc2990_get_value i2c idx result = (- EINVAL, i2c, result)"
    by (simp add: ltc2990_get_value_def reg_unmapped)
next
  show "ltc2990_get_value (kern (data\<lparr>mode := m\<rparr>)) idx result
        = ltc2990_get_value (kern data) idx result"
    by simp
qed

theorem register_map_witness:
  "calls (fst (snd (ltc2990_get_value \<lparr>answer = (\<lambda>h c. 0x0190), calls = []\<rparr> LTC2990_TEMP2 0)))
     = [Smbus_read_word_swapped 0x06]
   \<and> ltc2990_get_value \<lparr>answer = (\<lambda>h c. 0x0190), calls = []\<rparr> 3 9
     = (- 22, \<lparr>answer = (\<lambda>h c. 0x0190), calls = []\<rparr>, 9)"
  using register_map [where i2c = "\<lparr>answer = (\<lambda>h c. 0x0190), calls = []\<rparr>" and idx = 3
      and result = 9]
    register_map [where i2c = "\<lparr>answer = (\<lambda>h c. 0x0190), calls = []\<rparr>" and idx = 3
      and result = 0]
  by (simp add: channel_defs EINVAL_def reg_defs)

text \<open>
  C10. Whenever \<^verbatim>\<open>ltc2990_get_value\<close> returns a value other than 0, the out-parameter
  holds what it held before the call, and the value returned is negative.
\<close>

theorem result_written_only_on_success:
  "fst (ltc2990_get_value i2c idx result) \<noteq> 0 \<longrightarrow>
     snd (snd (ltc2990_get_value i2c idx result)) = result
     \<and> fst (ltc2990_get_value i2c idx result) <s 0"
  by (auto simp: ltc2990_get_value_def EINVAL_def word_sless_alt split: option.splits prod.splits)

theorem result_written_only_on_success_witness:
  "fst (ltc2990_get_value \<lparr>answer = (\<lambda>h c. - 5), calls = []\<rparr> LTC2990_TEMP1 9) = - 5
   \<and> snd (snd (ltc2990_get_value \<lparr>answer = (\<lambda>h c. - 5), calls = []\<rparr> LTC2990_TEMP1 9)) = 9
   \<and> snd (snd (ltc2990_get_value \<lparr>answer = (\<lambda>h c. - 5), calls = []\<rparr> 0 9)) = 9"
proof -
  have "fst (ltc2990_get_value \<lparr>answer = (\<lambda>h c. - 5), calls = []\<rparr> LTC2990_TEMP1 9) = - 5"
    by (simp add: ltc2990_get_value_def ltc2990_reg_def channel_defs extern_def word_sless_alt)
  moreover have "fst (ltc2990_get_value \<lparr>answer = (\<lambda>h c. - 5), calls = []\<rparr> 0 9) = - 22"
    by (simp add: ltc2990_get_value_def ltc2990_reg_def channel_defs EINVAL_def)
  ultimately show ?thesis
    using result_written_only_on_success
        [of "\<lparr>answer = (\<lambda>h c. - 5), calls = []\<rparr>" LTC2990_TEMP1 9]
      result_written_only_on_success [of "\<lparr>answer = (\<lambda>h c. - 5), calls = []\<rparr>" 0 9]
    by simp
qed

section \<open>Properties of the probe\<close>

text \<open>
  C9, as the spec words it, says that an out-of-range configured mode is never stored as
  the current mode. The code stores it: the property read puts the device-tree value into
  \<^verbatim>\<open>data->mode\<close>, and the warning is issued while the field holds it and prints it from
  there. For the configured mode 12 the field holds 12 after the read, which is above the
  maximum 7, and the range check logs the warning with 12 taken from the field.
\<close>

theorem probe_stores_configured_mode_counterexample:
  "mode (ltc2990_probe_read_mode \<lparr>answer = (\<lambda>h c. 0), calls = []\<rparr> (Some (0, 12))) = 12
   \<and> LTC2990_CONTROL_MODE_MAX
       < mode (ltc2990_probe_read_mode \<lparr>answer = (\<lambda>h c. 0), calls = []\<rparr> (Some (0, 12)))
   \<and> calls (kern (ltc2990_probe_check_mode
        (ltc2990_probe_read_mode \<lparr>answer = (\<lambda>h c. 0), calls = []\<rparr> (Some (0, 12)))))
       = [Dev_warn (''Warning: Mode %d out of range, defaulting to %d.'' @ [CHR 0x0A])
            (mode (ltc2990_probe_read_mode \<lparr>answer = (\<lambda>h c. 0), calls = []\<rparr> (Some (0, 12))))
            LTC2990_CONTROL_MODE_DEFAULT]"
  by (simp add: ltc2990_probe_read_mode_def ltc2990_probe_check_mode_def extern_def
      LTC2990_CONTROL_MODE_MAX_def)

text \<open>
  C9, amended. When the device tree gives a mode greater than 7, the property read stores
  that value in the mode field; the range check then logs a warning and overwrites the
  field with the default 6, before any bus transfer. From there \<^verbatim>\<open>ltc2990_i2c_probe\<close>
  goes on exactly as it does for the default mode 6: the mode it leaves is 6, the control
  write that follows the warning carries measure-all with mode 6 (\<open>0x1E\<close>), and no other
  write to the control register is made.
\<close>

theorem probe_substitutes_default:
  assumes "7 < v"
  shows "mode (ltc2990_probe_read_mode i2c (Some (0, v))) = v
       \<and> ltc2990_probe_check_mode (ltc2990_probe_read_mode i2c (Some (0, v)))
           = \<lparr>kern = i2c\<lparr>calls := calls i2c @
                  [Dev_warn (''Warning: Mode %d out of range, defaulting to %d.'' @ [CHR 0x0A])
                     v LTC2990_CONTROL_MODE_DEFAULT]\<rparr>,
              mode = LTC2990_CONTROL_MODE_DEFAULT\<rparr>
       \<and> ltc2990_i2c_probe i2c True True (Some (0, v))
           = ltc2990_i2c_probe
               (i2c\<lparr>calls := calls i2c @
                  [Dev_warn (''Warning: Mode %d out of range, defaulting to %d.'' @ [CHR 0x0A])
                     v LTC2990_CONTROL_MODE_DEFAULT]\<rparr>)
               True True (Some (0, LTC2990_CONTROL_MODE_DEFAULT))
       \<and> (\<exists>ret d rest.
             ltc2990_i2c_probe i2c True True (Some (0, v)) = (ret, Some d)
           \<and> mode d = 6
           \<and> calls (kern d) = calls i2c @
                [Dev_warn (''Warning: Mode %d out of range, defaulting to %d.'' @ [CHR 0x0A]) v 6,
                 Smbus_write_byte_data LTC2990_CONTROL 0x1E] @ rest
           \<and> (\<forall>r x. Smbus_write_byte_data r x \<in> set rest \<longrightarrow> r = LTC2990_TRIGGER \<and> x = 1))"
proof (intro conjI)
  show "mode (ltc2990_probe_read_mode i2c (Some (0, v))) = v"
    by (simp add: ltc2990_probe_read_mode_def)
  show "ltc2990_probe_check_mode (ltc2990_probe_read_mode i2c (Some (0, v)))
           = \<lparr>kern = i2c\<lparr>calls := calls i2c @
                  [Dev_warn (''Warning: Mode %d out of range, defaulting to %d.'' @ [CHR 0x0A])
                     v LTC2990_CONTROL_MODE_DEFAULT]\<rparr>,
              mode = LTC2990_CONTROL_MODE_DEFAULT\<rparr>"
    using assms
    by (simp add: ltc2990_probe_read_mode_def ltc2990_probe_check_mode_def extern_def
        LTC2990_CONTROL_MODE_MAX_def)
  show "ltc2990_i2c_probe i2c True True (Some (0, v))
           = ltc2990_i2c_probe
               (i2c\<lparr>calls := calls i2c @
                  [Dev_warn (''Warning: Mode %d out of range, defaulting to %d.'' @ [CHR 0x0A])
                     v LTC2990_CONTROL_MODE_DEFAULT]\<rparr>)
               True True (Some (0, LTC2990_CONTROL_MODE_DEFAULT))"
    unfolding probe_out_of_range [OF assms] probe_default ..
next
  define d0 where "d0 = \<lparr>kern = i2c\<lparr>calls := calls i2c @
                  [Dev_warn (''Warning: Mode %d out of range, defaulting to %d.'' @ [CHR 0x0A])
                     v LTC2990_CONTROL_MODE_DEFAULT]\<rparr>,
         mode = LTC2990_CONTROL_MODE_DEFAULT\<rparr>"
  have d0: "mode d0 = 6" "calls (kern d0) = calls i2c @
                  [Dev_warn (''Warning: Mode %d out of range, defaulting to %d.'' @ [CHR 0x0A]) v 6]"
    by (simp_all add: d0_def LTC2990_CONTROL_MODE_DEFAULT_def)
  obtain ret d1 rest where w: "ltc2990_write_control_trigger d0 = (ret, d1)"
    and m: "mode d1 = mode d0"
    and c: "calls (kern d1) = calls (kern d0) @
       Smbus_write_byte_data LTC2990_CONTROL (ucast (LTC2990_CONTROL_MEASURE_ALL OR mode d0)) # rest"
    and r: "\<forall>r x. Smbus_write_byte_data r x \<in> set rest \<longrightarrow> r = LTC2990_TRIGGER \<and> x = 1"
    by (rule write_control_trigger_effect [of d0])
  have b: "(ucast (LTC2990_CONTROL_MEASURE_ALL OR (6 :: u32)) :: u8) = 0x1E"
    by (simp add: LTC2990_CONTROL_MEASURE_ALL_def)
  show "\<exists>ret d rest.
             ltc2990_i2c_probe i2c True True (Some (0, v)) = (ret, Some d)
           \<and> mode d = 6
           \<and> calls (kern d) = calls i2c @
                [Dev_warn (''Warning: Mode %d out of range, defaulting to %d.'' @ [CHR 0x0A]) v 6,
                 Smbus_write_byte_data LTC2990_CONTROL 0x1E] @ rest
           \<and> (\<forall>r x. Smbus_write_byte_data r x \<in> set rest \<longrightarrow> r = LTC2990_TRIGGER \<and> x = 1)"
  proof (cases "ret <s 0")
    case True
    then show ?thesis
      unfolding probe_out_of_range [OF assms] d0_def [symmetric] w
      using r by (intro exI [of _ ret] exI [of _ d1] exI [of _ rest]) (simp add: m c d0 b)
  next
    case False
    then show ?thesis
      unfolding probe_out_of_range [OF assms] d0_def [symmetric] w
      using r
      by (intro exI [of _ "fst (extern (snd (extern (kern d1) Mutex_init)) Hwmon_device_register)"]
          exI [of _ "d1\<lparr>kern := snd (extern (snd (extern (kern d1) Mutex_init)) Hwmon_device_register)\<rparr>"]
          exI [of _ "rest @ [Mutex_init, Hwmon_device_register]"])
        (auto simp add: m c d0 b extern_def Let_def)
  qed
qed

theorem probe_substitutes_default_witness:
  "ltc2990_i2c_probe \<lparr>answer = (\<lambda>h c. 0), calls = []\<rparr> True True (Some (0, 12))
     = (0, Some \<lparr>kern = \<lparr>answer = (\<lambda>h c. 0),
                   calls = [Dev_warn (''Warning: Mode %d out of range, defaulting to %d.'' @ [CHR 0x0A]) 12 6,
                            Smbus_write_byte_data LTC2990_CONTROL 0x1E,
                            Smbus_write_byte_data LTC2990_TRIGGER 1,
                            Mutex_init, Hwmon_device_register]\<rparr>,
                 mode = 6\<rparr>)"
proof -
  have "ltc2990_i2c_probe
               (\<lparr>answer = (\<lambda>h c. 0), calls = []\<rparr>\<lparr>calls := calls \<lparr>answer = (\<lambda>h c. 0 :: s32), calls = []\<rparr> @
                  [Dev_warn (''Warning: Mode %d out of range, defaulting to %d.'' @ [CHR 0x0A])
                     12 LTC2990_CONTROL_MODE_DEFAULT]\<rparr>)
               True True (Some (0, LTC2990_CONTROL_MODE_DEFAULT))
     = (0, Some \<lparr>kern = \<lparr>answer = (\<lambda>h c. 0),
                   calls = [Dev_warn (''Warning: Mode %d out of range, defaulting to %d.'' @ [CHR 0x0A]) 12 6,
                            Smbus_write_byte_data LTC2990_CONTROL 0x1E,
                            Smbus_write_byte_data LTC2990_TRIGGER 1,
                            Mutex_init, Hwmon_device_register]\<rparr>,
                 mode = 6\<rparr>)"
    by (simp add: ltc2990_i2c_probe_def ltc2990_probe_read_mode_def
        ltc2990_probe_check_mode_def ltc2990_write_control_trigger_def extern_def Let_def
        LTC2990_CONTROL_MODE_DEFAULT_def LTC2990_CONTROL_MODE_MAX_def
        LTC2990_CONTROL_MEASURE_ALL_def)
  then show ?thesis
    using probe_substitutes_default [where v = 12 and i2c = "\<lparr>answer = (\<lambda>h c. 0), calls = []\<rparr>"]
    by simp
qed

end
